theory Spec2Isabelle
  imports Main "HOL-Library.AList"
begin

section \<open>JavaScript values\<close>

text \<open>
  The values that flow through the Model runtime. Functions, dates and
  objects carry an identity (a natural number standing for the reference); a plain object
  also carries its own enumerable properties in \<^verbatim>\<open>for .. in\<close> order. Numbers are
  integers: the runtime never computes with them, it only compares them, and \<^verbatim>\<open>NaN\<close>
  is not represented.
\<close>

datatype jsval =
    VUndefined
  | VNull
  | VBool bool
  | VNum int
  | VStr string
  | VFun nat
  | VDate nat nat
  | VObj nat "(string \<times> jsval) list"

text \<open>\<^verbatim>\<open>a === b\<close>: primitives by value, references by identity.\<close>

fun strict_eq :: "jsval \<Rightarrow> jsval \<Rightarrow> bool" where
  "strict_eq (VFun f) (VFun g) = (f = g)"
| "strict_eq (VDate i s) (VDate j t) = (i = j)"
| "strict_eq (VObj i ps) (VObj j qs) = (i = j)"
| "strict_eq a b = (a = b)"

text \<open>Truthiness, as used by \<^verbatim>\<open>properties || {}\<close>, \<^verbatim>\<open>!error\<close> and \<^verbatim>\<open>callback && ...\<close>.\<close>

fun truthy :: "jsval \<Rightarrow> bool" where
  "truthy VUndefined = False"
| "truthy VNull = False"
| "truthy (VBool b) = b"
| "truthy (VNum n) = (n \<noteq> 0)"
| "truthy (VStr s) = (s \<noteq> [])"
| "truthy (VFun f) = True"
| "truthy (VDate i t) = True"
| "truthy (VObj i ps) = True"

text \<open>\<^verbatim>\<open>x == null\<close> holds exactly for \<^verbatim>\<open>undefined\<close> and \<^verbatim>\<open>null\<close>.\<close>

fun nullish :: "jsval \<Rightarrow> bool" where
  "nullish VUndefined = True"
| "nullish VNull = True"
| "nullish v = False"

fun is_function :: "jsval \<Rightarrow> bool" where
  "is_function (VFun f) = True"
| "is_function v = False"

fun show_nat :: "nat \<Rightarrow> string" where
  "show_nat n =
     (if n < 10 then [char_of (48 + n)]
      else show_nat (n div 10) @ [char_of (48 + n mod 10)])"

text \<open>
  The own enumerable properties that \<^verbatim>\<open>for (key in x)\<close> visits (with or without the
  \<^verbatim>\<open>hasOwnProperty\<close> filter: the objects modelled here inherit no enumerable
  property). A string enumerates its indices; every other primitive, a function and a date
  enumerate nothing.
\<close>

fun for_in :: "jsval \<Rightarrow> (string \<times> jsval) list" where
  "for_in (VObj i ps) = ps"
| "for_in (VStr s) = zip (map show_nat [0..<length s]) (map (\<lambda>c. VStr [c]) s)"
| "for_in v = []"

text \<open>\<^verbatim>\<open>x.name\<close> for the names this runtime reads off a value (\<^verbatim>\<open>id\<close> and the four
  adapter operations): present only on a plain object that has it.\<close>

fun read_member :: "jsval \<Rightarrow> string \<Rightarrow> jsval" where
  "read_member (VObj i ps) n = (case map_of ps n of Some v \<Rightarrow> v | None \<Rightarrow> VUndefined)"
| "read_member v n = VUndefined"

section \<open>Entities, prototypes and user code\<close>

text \<open>
  \<^verbatim>\<open>_dirtyFields\<close> is either the shared sentinel \<^verbatim>\<open>EMPTY_DIRTY\<close> or an object allocated
  by \<^verbatim>\<open>set\<close>; \<^verbatim>\<open>hasChanged\<close> compares references, so the two are kept apart even when
  the allocated object is empty.
\<close>

datatype dirty = EMPTY_DIRTY | Dirty "string \<rightharpoonup> jsval"

record entity =
  props :: "string \<rightharpoonup> jsval"
  dirtyFields :: dirty

text \<open>
  A member of a prototype (or of an overrides bag): a data property, or an accessor with an
  optional getter and an optional setter, each a function identity. Objects that hold
  members keep them in \<^verbatim>\<open>for .. in\<close> order.
\<close>

datatype member = Value jsval | Accessor "nat option" "nat option"

type_synonym object = "(string \<times> member) list"

text \<open>
  Scope. The runtime calls its own members \<^verbatim>\<open>set\<close>, \<^verbatim>\<open>hasChanged\<close> and \<^verbatim>\<open>_clearDirty\<close>
  and keeps \<^verbatim>\<open>_dirtyFields\<close> on the instance; here they are functions and a record field of
  their own, so a data field stored under one of these names, or a derived type that
  overrides one of them, is not covered. \<^verbatim>\<open>id\<close>, \<^verbatim>\<open>refreshedAt\<close>, \<^verbatim>\<open>defaults\<close>, \<^verbatim>\<open>init\<close>,
  \<^verbatim>\<open>validate\<close> and \<^verbatim>\<open>data\<close> are ordinary properties, looked up on the instance and then on
  the prototype. Application functions are total: they return, and they call back at most
  once.
\<close>

text \<open>
  The behaviour of the functions supplied by the application, by function identity:
  getters and setters run against an entity, \<^verbatim>\<open>init\<close> receives the argument list,
  \<^verbatim>\<open>validate\<close> leaves the entity in some state and may deliver an error array,
  an adapter operation receives the options and may deliver an error value
  (\<open>None\<close>: the callback is never invoked). \<open>proto_setter_fn\<close> is a setter run with a
  prototype object as receiver, which is what an assignment inside \<^verbatim>\<open>extend\<close> does.
\<close>

record user_code =
  getter_fn :: "nat \<Rightarrow> entity \<Rightarrow> jsval"
  setter_fn :: "nat \<Rightarrow> jsval \<Rightarrow> entity \<Rightarrow> entity"
  init_fn :: "nat \<Rightarrow> jsval list \<Rightarrow> entity \<Rightarrow> entity"
  validate_fn :: "nat \<Rightarrow> entity \<Rightarrow> entity \<times> jsval list option"
  adapter_fn :: "nat \<Rightarrow> jsval \<Rightarrow> entity \<Rightarrow> entity \<times> jsval option"
  proto_setter_fn :: "nat \<Rightarrow> jsval \<Rightarrow> object \<Rightarrow> object"

text \<open>The identity of a fresh object literal and the clock read by \<^verbatim>\<open>new Date()\<close>.\<close>

record ambient =
  fresh :: nat
  now :: nat

datatype exn = TypeError

text \<open>\<^verbatim>\<open>this[name]\<close>: an own property, else the prototype's member.\<close>

definition get_prop :: "user_code \<Rightarrow> object \<Rightarrow> entity \<Rightarrow> string \<Rightarrow> jsval" where
  "get_prop U P e n =
     (case props e n of
        Some v \<Rightarrow> v
      | None \<Rightarrow>
          (case map_of P n of
             Some (Value v) \<Rightarrow> v
           | Some (Accessor (Some g) s) \<Rightarrow> getter_fn U g e
           | Some (Accessor None s) \<Rightarrow> VUndefined
           | None \<Rightarrow> VUndefined))"

text \<open>\<^verbatim>\<open>this[name] = value\<close>: routed through an inherited setter when there is one, and
  dropped when the inherited accessor has a getter only.\<close>

definition put_prop :: "user_code \<Rightarrow> object \<Rightarrow> string \<Rightarrow> jsval \<Rightarrow> entity \<Rightarrow> entity" where
  "put_prop U P n v e =
     (case props e n of
        Some old \<Rightarrow> e\<lparr>props := (props e)(n \<mapsto> v)\<rparr>
      | None \<Rightarrow>
          (case map_of P n of
             Some (Accessor g (Some s)) \<Rightarrow> setter_fn U s v e
           | Some (Accessor g None) \<Rightarrow> e
           | Some (Value old) \<Rightarrow> e\<lparr>props := (props e)(n \<mapsto> v)\<rparr>
           | None \<Rightarrow> e\<lparr>props := (props e)(n \<mapsto> v)\<rparr>))"

section \<open>Dirty tracking\<close>

definition clearDirty :: "entity \<Rightarrow> entity" where
  "clearDirty e = e\<lparr>dirtyFields := EMPTY_DIRTY\<rparr>"

text \<open>\<^verbatim>\<open>this._dirtyFields !== EMPTY_DIRTY\<close>, a comparison of references.\<close>

definition hasChanged :: "entity \<Rightarrow> bool" where
  "hasChanged e = (case dirtyFields e of EMPTY_DIRTY \<Rightarrow> False | Dirty m \<Rightarrow> True)"

definition changed :: "entity \<Rightarrow> (string \<rightharpoonup> jsval)" where
  "changed e = (case dirtyFields e of EMPTY_DIRTY \<Rightarrow> Map.empty | Dirty m \<Rightarrow> m)"

definition isNew :: "user_code \<Rightarrow> object \<Rightarrow> entity \<Rightarrow> bool" where
  "isNew U P e = nullish (get_prop U P e ''id'')"

text \<open>\<^verbatim>\<open>propertyName[0] === '_'\<close> then \<^verbatim>\<open>propertyName.substr(1)\<close>.\<close>

fun dirtyName :: "string \<Rightarrow> string" where
  "dirtyName [] = []"
| "dirtyName (c # cs) = (if c = CHR ''_'' then cs else c # cs)"

text \<open>
  \<^verbatim>\<open>set\<close> has two forms, told apart by \<^verbatim>\<open>typeof propertyName === 'object'\<close>; each is a
  function of its own here. First \<^verbatim>\<open>set(propertyName, value)\<close> with a string
  \<^verbatim>\<open>propertyName\<close>.
\<close>

definition set_single :: "user_code \<Rightarrow> object \<Rightarrow> string \<Rightarrow> jsval \<Rightarrow> entity \<Rightarrow> entity" where
  "set_single U P propertyName v e =
     (if strict_eq (get_prop U P e propertyName) v then e
      else
        let e1 = (if \<not> hasChanged e then e\<lparr>dirtyFields := Dirty Map.empty\<rparr> else e);
            e2 = e1\<lparr>dirtyFields := Dirty ((changed e1)(dirtyName propertyName \<mapsto> v))\<rparr>
        in put_prop U P propertyName v e2)"

definition set_each :: "user_code \<Rightarrow> object \<Rightarrow> (string \<times> jsval) list \<Rightarrow> entity \<Rightarrow> entity" where
  "set_each U P kvs e = foldl (\<lambda>e' kv. set_single U P (fst kv) (snd kv) e') e kvs"

text \<open>
  \<^verbatim>\<open>set(bag)\<close>, the branch taken when \<^verbatim>\<open>typeof propertyName === 'object'\<close>: every pair
  goes through the single form, and an \<^verbatim>\<open>id\<close> key among them clears the dirty state at
  the end.
\<close>

definition set_bag :: "user_code \<Rightarrow> object \<Rightarrow> jsval \<Rightarrow> entity \<Rightarrow> entity" where
  "set_bag U P properties e =
     (let e1 = set_each U P (for_in properties) e
      in if ''id'' \<in> set (map fst (for_in properties)) then clearDirty e1 else e1)"

section \<open>The constructor\<close>

text \<open>
  Function identities of the members that \<^verbatim>\<open>Model.prototype\<close> declares itself. The default
  \<^verbatim>\<open>init\<close> does nothing, the default \<^verbatim>\<open>validate\<close> delivers an empty array and the four
  default adapter operations deliver \<^verbatim>\<open>{ notImplemented: true }\<close>.
\<close>

definition Model_init :: nat where "Model_init = 0"
definition Model_validate :: nat where "Model_validate = 1"
definition Model_data_ops :: "nat list" where "Model_data_ops = [2, 3, 4, 5]"

definition call_init :: "user_code \<Rightarrow> nat \<Rightarrow> jsval list \<Rightarrow> entity \<Rightarrow> entity" where
  "call_init U f args e = (if f = Model_init then e else init_fn U f args e)"

text \<open>
  The \<^verbatim>\<open>arguments\<close> object when \<^verbatim>\<open>init\<close> is applied. The file is not in strict mode, so
  \<^verbatim>\<open>arguments[0]\<close> is aliased to the parameter \<^verbatim>\<open>properties\<close> and sees the assignment
  \<^verbatim>\<open>properties = properties || {}\<close>, but only when a first argument was actually passed:
  with an empty argument list there is no \<^verbatim>\<open>arguments[0]\<close> to alias.
\<close>

definition resolve_properties :: "ambient \<Rightarrow> jsval list \<Rightarrow> jsval" where
  "resolve_properties a arguments =
     (let properties = (case arguments of [] \<Rightarrow> VUndefined | x # rest \<Rightarrow> x)
      in if truthy properties then properties else VObj (fresh a) [])"

definition init_arguments :: "ambient \<Rightarrow> jsval list \<Rightarrow> jsval list" where
  "init_arguments a arguments =
     (case arguments of [] \<Rightarrow> [] | x # rest \<Rightarrow> resolve_properties a arguments # rest)"

definition new_object :: entity where
  "new_object = \<lparr>props = Map.empty, dirtyFields = EMPTY_DIRTY\<rparr>"

text \<open>The body of \<^verbatim>\<open>Model(properties, callback)\<close> up to the call of \<^verbatim>\<open>init\<close>.\<close>

definition before_init :: "user_code \<Rightarrow> object \<Rightarrow> ambient \<Rightarrow> jsval list \<Rightarrow> entity" where
  "before_init U P a arguments =
     (let properties = resolve_properties a arguments;
          e0 = clearDirty new_object;
          e1 = set_each U P (for_in (get_prop U P e0 ''defaults'')) e0;
          e2 = set_each U P (for_in properties) e1;
          dontMarkDirty = (\<not> nullish (read_member properties ''id''))
      in if dontMarkDirty then clearDirty e2 else e2)"

definition Model :: "user_code \<Rightarrow> object \<Rightarrow> ambient \<Rightarrow> jsval list \<Rightarrow> exn + entity" where
  "Model U P a arguments =
     (let e = before_init U P a arguments
      in case get_prop U P e ''init'' of
           VFun f \<Rightarrow> Inr (call_init U f (init_arguments a arguments) e)
         | other \<Rightarrow> Inl TypeError)"

section \<open>The lifecycle: destroy, fetch, save\<close>

text \<open>
  What reaches a completion callback as its error argument: a value handed over by an
  adapter, or one of the objects the runtime builds itself, \<^verbatim>\<open>{ notImplemented: true }\<close>,
  \<^verbatim>\<open>{ validationErrors: errors }\<close> and \<^verbatim>\<open>{ badImplementation: true, message: .. }\<close>.
\<close>

datatype err =
    Val jsval
  | NotImplemented
  | ValidationErrors "jsval list"
  | BadImplementation string

fun truthy_err :: "err \<Rightarrow> bool" where
  "truthy_err (Val v) = truthy v"
| "truthy_err NotImplemented = True"
| "truthy_err (ValidationErrors errors) = True"
| "truthy_err (BadImplementation message) = True"

text \<open>
  The fate of the caller's callback: invoked with an error argument, not invoked because
  none was supplied, a \<^verbatim>\<open>TypeError\<close> thrown on the way, or still pending because the hook
  or adapter never called back.
\<close>

datatype delivery = Called err | NotCalled | Threw | Pending

text \<open>
  The result of a lifecycle operation: the entity afterwards, the adapter operations that
  were invoked (name and options, in order) and the fate of the callback.
\<close>

record outcome =
  after :: entity
  calls :: "(string \<times> jsval) list"
  cb :: delivery

text \<open>\<^verbatim>\<open>callback(error)\<close> and \<^verbatim>\<open>callback && callback(error)\<close>.\<close>

definition deliver :: "jsval \<Rightarrow> err \<Rightarrow> delivery" where
  "deliver callback error = (if is_function callback then Called error else Threw)"

definition deliver_guarded :: "jsval \<Rightarrow> err \<Rightarrow> delivery" where
  "deliver_guarded callback error =
     (if \<not> truthy callback then NotCalled else deliver callback error)"

text \<open>\<^verbatim>\<open>if (typeof options === 'function') { callback = options; options = {}; }\<close>\<close>

definition shuffle :: "ambient \<Rightarrow> jsval \<Rightarrow> jsval \<Rightarrow> jsval \<times> jsval" where
  "shuffle a options callback =
     (if is_function options then (VObj (fresh a) [], options) else (options, callback))"

definition call_validate :: "user_code \<Rightarrow> nat \<Rightarrow> entity \<Rightarrow> entity \<times> jsval list option" where
  "call_validate U f e = (if f = Model_validate then (e, Some []) else validate_fn U f e)"

definition call_adapter :: "user_code \<Rightarrow> nat \<Rightarrow> jsval \<Rightarrow> entity \<Rightarrow> entity \<times> err option" where
  "call_adapter U f options e =
     (if f \<in> set Model_data_ops then (e, Some NotImplemented)
      else (fst (adapter_fn U f options e), map_option Val (snd (adapter_fn U f options e))))"

definition destroy :: "user_code \<Rightarrow> object \<Rightarrow> ambient \<Rightarrow> jsval \<Rightarrow> jsval \<Rightarrow> entity \<Rightarrow> outcome" where
  "destroy U P a options0 callback0 e =
     (let options = fst (shuffle a options0 callback0);
          callback = snd (shuffle a options0 callback0)
      in case read_member (get_prop U P e ''data'') ''destroy'' of
           VFun f \<Rightarrow>
             (case call_adapter U f options e of
                (e1, None) \<Rightarrow> \<lparr>after = e1, calls = [(''destroy'', options)], cb = Pending\<rparr>
              | (e1, Some error) \<Rightarrow>
                  \<lparr>after = e1, calls = [(''destroy'', options)],
                   cb = deliver_guarded callback error\<rparr>)
         | other \<Rightarrow> \<lparr>after = e, calls = [], cb = Threw\<rparr>)"

definition fetch :: "user_code \<Rightarrow> object \<Rightarrow> ambient \<Rightarrow> jsval \<Rightarrow> jsval \<Rightarrow> entity \<Rightarrow> outcome" where
  "fetch U P a options0 callback0 e =
     (let options = fst (shuffle a options0 callback0);
          callback = snd (shuffle a options0 callback0)
      in case read_member (get_prop U P e ''data'') ''fetch'' of
           VFun f \<Rightarrow>
             (case call_adapter U f options e of
                (e1, None) \<Rightarrow> \<lparr>after = e1, calls = [(''fetch'', options)], cb = Pending\<rparr>
              | (e1, Some error) \<Rightarrow>
                  \<lparr>after =
                     (if \<not> truthy_err error
                      then clearDirty
                             (put_prop U P ''refreshedAt'' (VDate (Suc (fresh a)) (now a)) e1)
                      else e1),
                   calls = [(''fetch'', options)],
                   cb = deliver_guarded callback error\<rparr>)
         | other \<Rightarrow> \<lparr>after = e, calls = [], cb = Threw\<rparr>)"

text \<open>The two branches of \<^verbatim>\<open>save\<close> after validation has passed.\<close>

definition save_update :: "user_code \<Rightarrow> object \<Rightarrow> jsval \<Rightarrow> jsval \<Rightarrow> entity \<Rightarrow> outcome" where
  "save_update U P options callback e1 =
     (case read_member (get_prop U P e1 ''data'') ''update'' of
        VFun f \<Rightarrow>
          (case call_adapter U f options e1 of
             (e2, None) \<Rightarrow> \<lparr>after = e2, calls = [(''update'', options)], cb = Pending\<rparr>
           | (e2, Some error) \<Rightarrow>
               \<lparr>after = (if \<not> truthy_err error then clearDirty e2 else e2),
                calls = [(''update'', options)],
                cb = deliver_guarded callback error\<rparr>)
      | other \<Rightarrow> \<lparr>after = e1, calls = [], cb = Threw\<rparr>)"

definition save_create :: "user_code \<Rightarrow> object \<Rightarrow> jsval \<Rightarrow> jsval \<Rightarrow> entity \<Rightarrow> outcome" where
  "save_create U P options callback e1 =
     (case read_member (get_prop U P e1 ''data'') ''create'' of
        VFun f \<Rightarrow>
          (case call_adapter U f options e1 of
             (e2, None) \<Rightarrow> \<lparr>after = e2, calls = [(''create'', options)], cb = Pending\<rparr>
           | (e2, Some error0) \<Rightarrow>
               (let error =
                      (if \<not> truthy_err error0 \<and> nullish (get_prop U P e2 ''id'')
                       then BadImplementation
                              ''id property should have been set after create was called''
                       else error0)
                in \<lparr>after = (if \<not> truthy_err error then clearDirty e2 else e2),
                    calls = [(''create'', options)],
                    cb = deliver_guarded callback error\<rparr>))
      | other \<Rightarrow> \<lparr>after = e1, calls = [], cb = Threw\<rparr>)"

definition save :: "user_code \<Rightarrow> object \<Rightarrow> ambient \<Rightarrow> jsval \<Rightarrow> jsval \<Rightarrow> entity \<Rightarrow> outcome" where
  "save U P a options0 callback0 e =
     (let options = fst (shuffle a options0 callback0);
          callback = snd (shuffle a options0 callback0)
      in case get_prop U P e ''validate'' of
           VFun vf \<Rightarrow>
             (case call_validate U vf e of
                (e1, None) \<Rightarrow> \<lparr>after = e1, calls = [], cb = Pending\<rparr>
              | (e1, Some errors) \<Rightarrow>
                  if length errors > 0
                  then \<lparr>after = e1, calls = [], cb = deliver callback (ValidationErrors errors)\<rparr>
                  else if \<not> nullish (get_prop U P e1 ''id'')
                  then save_update U P options callback e1
                  else save_create U P options callback e1)
         | other \<Rightarrow> \<lparr>after = e, calls = [], cb = Threw\<rparr>)"

section \<open>Type composition: extend and derive\<close>

text \<open>
  A constructible type: its static properties, its prototype and \<^verbatim>\<open>super_\<close> (here \<open>super_ref\<close>). A type made
  by \<^verbatim>\<open>derive\<close> forwards its arguments to the base constructor, so \<^verbatim>\<open>new T(..)\<close> runs the
  body of \<^verbatim>\<open>Model\<close> on an object whose prototype is \<^verbatim>\<open>T.prototype\<close>.
\<close>

record jstype =
  statics :: object
  prototype :: object
  super_ref :: "object option"

text \<open>
  \<^verbatim>\<open>obj.__defineGetter__(prop, getter)\<close> and \<^verbatim>\<open>obj.__defineSetter__(prop, setter)\<close>:
  an accessor already there keeps its other half, a data property is replaced.
\<close>

definition defineGetter :: "object \<Rightarrow> string \<Rightarrow> nat \<Rightarrow> object" where
  "defineGetter obj p g =
     AList.update p
       (case map_of obj p of
          Some (Accessor g0 s0) \<Rightarrow> Accessor (Some g) s0
        | other \<Rightarrow> Accessor (Some g) None) obj"

definition defineSetter :: "object \<Rightarrow> string \<Rightarrow> nat \<Rightarrow> object" where
  "defineSetter obj p s =
     AList.update p
       (case map_of obj p of
          Some (Accessor g0 s0) \<Rightarrow> Accessor g0 (Some s)
        | other \<Rightarrow> Accessor None (Some s)) obj"

text \<open>
  \<^verbatim>\<open>obj[prop] = value\<close> on an object that holds members: an accessor on the target is
  not replaced, its setter runs with the target as receiver (and the assignment is dropped
  when it has none). An object has one member per name, so whatever the setter returns is
  read with its first entry per name (\<open>AList.clearjunk\<close> drops the shadowed ones, the
  lookup \<open>map_of\<close> is unchanged by it).
\<close>

definition assign :: "user_code \<Rightarrow> object \<Rightarrow> string \<Rightarrow> jsval \<Rightarrow> object" where
  "assign U obj p v =
     (case map_of obj p of
        Some (Accessor g (Some s)) \<Rightarrow> AList.clearjunk (proto_setter_fn U s v obj)
      | Some (Accessor g None) \<Rightarrow> obj
      | Some (Value old) \<Rightarrow> AList.update p (Value v) obj
      | None \<Rightarrow> AList.update p (Value v) obj)"

text \<open>One round of the loop \<^verbatim>\<open>for (var prop in source)\<close> of \<^verbatim>\<open>extend\<close>.\<close>

fun extend_prop :: "user_code \<Rightarrow> object \<Rightarrow> string \<times> member \<Rightarrow> object" where
  "extend_prop U obj (p, Accessor getter setter) =
     (if getter \<noteq> None \<or> setter \<noteq> None
      then
        let obj1 = (case getter of Some g \<Rightarrow> defineGetter obj p g | None \<Rightarrow> obj)
        in (case setter of Some s \<Rightarrow> defineSetter obj1 p s | None \<Rightarrow> obj1)
      else obj)"
| "extend_prop U obj (p, Value v) =
     (if v \<noteq> VUndefined then assign U obj p v else obj)"

definition extend :: "user_code \<Rightarrow> object \<Rightarrow> object list \<Rightarrow> object" where
  "extend U obj sources = foldl (\<lambda>target source. foldl (extend_prop U) target source) obj sources"

definition derive :: "user_code \<Rightarrow> jstype \<Rightarrow> object \<Rightarrow> jstype" where
  "derive U base instanceProperties =
     (let derived = \<lparr>statics = [], prototype = [], super_ref = None\<rparr>;
          derived1 = derived\<lparr>statics := extend U (statics derived) [statics base]\<rparr>;
          derived2 = derived1\<lparr>prototype := extend U (prototype derived1) [prototype base]\<rparr>;
          derived3 = derived2\<lparr>prototype := extend U (prototype derived2) [instanceProperties]\<rparr>
      in derived3\<lparr>super_ref := Some (prototype base)\<rparr>)"

definition construct :: "user_code \<Rightarrow> jstype \<Rightarrow> ambient \<Rightarrow> jsval list \<Rightarrow> exn + entity" where
  "construct U T a arguments = Model U (prototype T) a arguments"


text \<open>
  The root type. Its prototype lists the members that the source declares, in source
  order; the runtime's own methods appear as function identities.
\<close>

definition Model_prototype :: object where
  "Model_prototype =
     [(''data'', Value (VObj 6 [(''destroy'', VFun 2), (''fetch'', VFun 3),
                               (''create'', VFun 4), (''update'', VFun 5)])),
      (''destroy'', Value (VFun 7)),
      (''fetch'', Value (VFun 8)),
      (''save'', Value (VFun 9)),
      (''isNew'', Value (VFun 10)),
      (''hasChanged'', Value (VFun 11)),
      (''changed'', Value (VFun 12)),
      (''set'', Value (VFun 13)),
      (''_clearDirty'', Value (VFun 14)),
      (''init'', Value (VFun Model_init)),
      (''validate'', Value (VFun Model_validate)),
      (''toJson'', Value (VFun 15))]"

definition Model_type :: jstype where
  "Model_type = \<lparr>statics = [(''derive'', Value (VFun 16))], prototype = Model_prototype,
                  super_ref = None\<rparr>"

section \<open>Example application code\<close>

text \<open>
  Application code in the style of the repository's tests and examples, used to run the
  model on concrete inputs. Adapter operations: 31 creates and assigns \<^verbatim>\<open>id = 12345\<close>,
  32 updates, 33 fetches and reports \<^verbatim>\<open>null\<close>, 34 destroys, 35 creates without assigning an
  id, every other one fails with \<^verbatim>\<open>'an error'\<close>. Validation 40 reports one error.
  \<^verbatim>\<open>init\<close> 50 assigns \<^verbatim>\<open>name\<close> and \<^verbatim>\<open>age\<close> from its parameters, 51 calls 50 and then
  assigns \<^verbatim>\<open>salary\<close>, 52 stores its first parameter in \<^verbatim>\<open>seen\<close>. Getter 60 and setter 61
  read and write the backing field \<^verbatim>\<open>_name\<close>.
\<close>

definition first_arg :: "jsval list \<Rightarrow> jsval" where
  "first_arg args = (case args of [] \<Rightarrow> VUndefined | x # rest \<Rightarrow> x)"

definition store :: "string \<Rightarrow> jsval \<Rightarrow> entity \<Rightarrow> entity" where
  "store n v e = e\<lparr>props := (props e)(n \<mapsto> v)\<rparr>"

definition person_init :: "jsval list \<Rightarrow> entity \<Rightarrow> entity" where
  "person_init args e =
     store ''age'' (read_member (first_arg args) ''age'')
       (store ''name'' (read_member (first_arg args) ''name'') e)"

definition employed_rest :: "jsval list \<Rightarrow> entity \<Rightarrow> entity" where
  "employed_rest args e = store ''salary'' (read_member (first_arg args) ''salary'') e"

definition test_code :: user_code where
  "test_code =
     \<lparr>getter_fn = (\<lambda>g e.
         if g = 60 then (case props e ''_name'' of Some v \<Rightarrow> v | None \<Rightarrow> VStr ''frank'')
         else VUndefined),
      setter_fn = (\<lambda>s v e. if s = 61 then store ''_name'' v e else e),
      init_fn = (\<lambda>f args e.
         if f = 50 then person_init args e
         else if f = 51 then employed_rest args (person_init args e)
         else if f = 52 then store ''seen'' (first_arg args) e
         else e),
      validate_fn = (\<lambda>f e. if f = 40 then (e, Some [VStr ''an error'']) else (e, Some [])),
      adapter_fn = (\<lambda>f options e.
         if f = 31 then (store ''id'' (VNum 12345) e, Some VUndefined)
         else if f = 32 then (e, Some VUndefined)
         else if f = 33 then (e, Some VNull)
         else if f = 34 then (e, Some VUndefined)
         else if f = 35 then (e, Some VUndefined)
         else (e, Some (VStr ''an error''))),
      proto_setter_fn = (\<lambda>s v obj.
         if s = 61 then AList.update ''_name'' (Value v) obj else obj)\<rparr>"

definition clock :: ambient where
  "clock = \<lparr>fresh = 1000, now = 77\<rparr>"

definition Person :: jstype where
  "Person = derive test_code Model_type
     [(''data'', Value (VObj 30 [(''create'', VFun 31), (''update'', VFun 32),
                                (''fetch'', VFun 33), (''destroy'', VFun 34)]))]"

definition Invalid :: jstype where
  "Invalid = derive test_code Person [(''validate'', Value (VFun 40))]"

definition Forgetful :: jstype where
  "Forgetful = derive test_code Model_type
     [(''data'', Value (VObj 37 [(''create'', VFun 35)]))]"

definition Failing :: jstype where
  "Failing = derive test_code Model_type
     [(''data'', Value (VObj 38 [(''fetch'', VFun 36)]))]"

definition Recorder :: jstype where
  "Recorder = derive test_code Model_type [(''init'', Value (VFun 52))]"




definition with_id :: entity where
  "with_id = store ''id'' (VNum 5678) new_object"

section \<open>The save and fetch lifecycle\<close>



text \<open>
  Claim C2. When \<^verbatim>\<open>validate\<close> delivers a non-empty error list, the callback of \<^verbatim>\<open>save\<close>
  receives the validation-error result carrying exactly that list, no adapter operation is
  invoked, and \<^verbatim>\<open>save\<close> leaves the entity as \<^verbatim>\<open>validate\<close> left it, dirty state included.
\<close>

theorem save_validation_gate:
  assumes "get_prop U P e ''validate'' = VFun vf"
    and "call_validate U vf e = (e1, Some errors)"
    and "errors \<noteq> []"
    and "is_function (snd (shuffle a options callback))"
  shows "cb (save U P a options callback e) = Called (ValidationErrors errors)
       \<and> calls (save U P a options callback e) = []
       \<and> after (save U P a options callback e) = e1"
  using assms by (simp add: save_def Let_def deliver_def)

text \<open>C2 at a type whose \<^verbatim>\<open>validate\<close> reports one error string.\<close>

theorem save_validation_gate_witness:
  "cb (save test_code (prototype Invalid) clock (VFun 100) VUndefined with_id)
     = Called (ValidationErrors [VStr ''an error''])
   \<and> calls (save test_code (prototype Invalid) clock (VFun 100) VUndefined with_id) = []
   \<and> after (save test_code (prototype Invalid) clock (VFun 100) VUndefined with_id) = with_id"
proof -
  have v: "get_prop test_code (prototype Invalid) with_id ''validate'' = VFun 40"
    by code_simp
  have c: "call_validate test_code 40 with_id = (with_id, Some [VStr ''an error''])"
    by (simp add: call_validate_def Model_validate_def test_code_def)
  have f: "is_function (snd (shuffle clock (VFun 100) VUndefined))"
    by (simp add: shuffle_def)
  show ?thesis
    using save_validation_gate [OF v c _ f] by simp
qed

text \<open>
  Claim C6. A new entity whose adapter \<^verbatim>\<open>create\<close> reports success (a falsy error) while
  \<^verbatim>\<open>id\<close> is still absent afterwards: the callback of \<^verbatim>\<open>save\<close> receives the
  implementation-error result, which is no validation-error result, and the entity stays as
  the adapter left it, so its dirty state is not cleared.
\<close>

theorem save_create_without_id:
  assumes "get_prop U P e ''validate'' = VFun vf"
    and "call_validate U vf e = (e1, Some [])"
    and "nullish (get_prop U P e1 ''id'')"
    and "read_member (get_prop U P e1 ''data'') ''create'' = VFun f"
    and "call_adapter U f (fst (shuffle a options callback)) e1 = (e2, Some error)"
    and "\<not> truthy_err error"
    and "nullish (get_prop U P e2 ''id'')"
    and "is_function (snd (shuffle a options callback))"
  shows "cb (save U P a options callback e)
           = Called (BadImplementation ''id property should have been set after create was called'')
       \<and> cb (save U P a options callback e) \<noteq> Called (ValidationErrors errors)
       \<and> after (save U P a options callback e) = e2"
  using assms
  by (cases "snd (shuffle a options callback)")
     (simp_all add: save_def save_create_def Let_def deliver_guarded_def deliver_def)

text \<open>C6 at an adapter whose \<^verbatim>\<open>create\<close> calls back without assigning an id.\<close>

theorem save_create_without_id_witness:
  "cb (save test_code (prototype Forgetful) clock (VFun 100) VUndefined new_object)
     = Called (BadImplementation ''id property should have been set after create was called'')
   \<and> cb (save test_code (prototype Forgetful) clock (VFun 100) VUndefined new_object)
       \<noteq> Called (ValidationErrors [])
   \<and> after (save test_code (prototype Forgetful) clock (VFun 100) VUndefined new_object)
       = new_object"
proof -
  have v: "get_prop test_code (prototype Forgetful) new_object ''validate'' = VFun Model_validate"
    by code_simp
  have c: "call_validate test_code Model_validate new_object = (new_object, Some [])"
    by (simp add: call_validate_def)
  have n: "nullish (get_prop test_code (prototype Forgetful) new_object ''id'')"
    by code_simp
  have d: "read_member (get_prop test_code (prototype Forgetful) new_object ''data'') ''create''
             = VFun 35"
    by code_simp
  have r: "call_adapter test_code 35 (fst (shuffle clock (VFun 100) VUndefined)) new_object
             = (new_object, Some (Val VUndefined))"
    by (simp add: call_adapter_def Model_data_ops_def test_code_def)
  have t: "\<not> truthy_err (Val VUndefined)"
    by simp
  have f: "is_function (snd (shuffle clock (VFun 100) VUndefined))"
    by (simp add: shuffle_def)
  show ?thesis
    using save_create_without_id [OF v c n d r t n f, of "[]"] by simp
qed

text \<open>
  Claim C5 as stated fails: an adapter that reports success with \<^verbatim>\<open>null\<close> (any falsy
  value other than \<^verbatim>\<open>undefined\<close>) makes \<^verbatim>\<open>fetch\<close> invoke the callback with \<^verbatim>\<open>null\<close>, not
  with \<^verbatim>\<open>undefined\<close>.
\<close>

theorem fetch_success_null_counterexample:
  "snd (call_adapter test_code 33 (VObj 1000 []) with_id) = Some (Val VNull)
   \<and> \<not> truthy_err (Val VNull)
   \<and> cb (fetch test_code (prototype Person) clock (VFun 100) VUndefined with_id) = Called (Val VNull)
   \<and> cb (fetch test_code (prototype Person) clock (VFun 100) VUndefined with_id)
       \<noteq> Called (Val VUndefined)"
  by code_simp

text \<open>
  Claim C5, amended. \<^verbatim>\<open>fetch\<close> hands the adapter's error value to the callback unchanged.
  When that value is falsy, \<^verbatim>\<open>refreshedAt\<close> is assigned a date holding the current time
  (stored on the entity when no accessor intercepts the assignment) and the dirty state is
  cleared; when it is truthy, the entity stays exactly as the adapter left it.
\<close>

theorem fetch_outcome:
  assumes "read_member (get_prop U P e ''data'') ''fetch'' = VFun f"
    and "call_adapter U f (fst (shuffle a options callback)) e = (e1, Some error)"
    and "is_function (snd (shuffle a options callback))"
  shows "cb (fetch U P a options callback e) = Called error
       \<and> (\<not> truthy_err error \<longrightarrow>
            after (fetch U P a options callback e)
              = clearDirty (put_prop U P ''refreshedAt'' (VDate (Suc (fresh a)) (now a)) e1)
            \<and> \<not> hasChanged (after (fetch U P a options callback e))
            \<and> (props e1 ''refreshedAt'' = None \<longrightarrow> map_of P ''refreshedAt'' = None \<longrightarrow>
                 props (after (fetch U P a options callback e)) ''refreshedAt''
                   = Some (VDate (Suc (fresh a)) (now a))))
       \<and> (truthy_err error \<longrightarrow> after (fetch U P a options callback e) = e1)"
  using assms
  by (cases "snd (shuffle a options callback)")
     (simp_all add: fetch_def Let_def deliver_guarded_def deliver_def clearDirty_def
        hasChanged_def put_prop_def)

text \<open>The amended C5 at a successful and at a failing \<^verbatim>\<open>fetch\<close>.\<close>

theorem fetch_outcome_witness:
  "cb (fetch test_code (prototype Person) clock (VFun 100) VUndefined with_id) = Called (Val VNull)
   \<and> \<not> hasChanged (after (fetch test_code (prototype Person) clock (VFun 100) VUndefined with_id))
   \<and> props (after (fetch test_code (prototype Person) clock (VFun 100) VUndefined with_id))
        ''refreshedAt'' = Some (VDate 1001 77)
   \<and> cb (fetch test_code (prototype Failing) clock (VFun 100) VUndefined with_id)
        = Called (Val (VStr ''an error''))
   \<and> after (fetch test_code (prototype Failing) clock (VFun 100) VUndefined with_id) = with_id"
proof -
  have d1: "read_member (get_prop test_code (prototype Person) with_id ''data'') ''fetch'' = VFun 33"
    by code_simp
  have r1: "call_adapter test_code 33 (fst (shuffle clock (VFun 100) VUndefined)) with_id
             = (with_id, Some (Val VNull))"
    by (simp add: call_adapter_def Model_data_ops_def test_code_def)
  have d2: "read_member (get_prop test_code (prototype Failing) with_id ''data'') ''fetch'' = VFun 36"
    by code_simp
  have r2: "call_adapter test_code 36 (fst (shuffle clock (VFun 100) VUndefined)) with_id
             = (with_id, Some (Val (VStr ''an error'')))"
    by (simp add: call_adapter_def Model_data_ops_def test_code_def)
  have f: "is_function (snd (shuffle clock (VFun 100) VUndefined))"
    by (simp add: shuffle_def)
  have p1: "props with_id ''refreshedAt'' = None"
    by code_simp
  have p2: "map_of (prototype Person) ''refreshedAt'' = None"
    by code_simp
  show ?thesis
    using fetch_outcome [OF d1 r1 f] fetch_outcome [OF d2 r2 f] p1 p2
    by (simp add: clock_def hasChanged_def clearDirty_def put_prop_def)
qed

section \<open>Dirty tracking and construction\<close>






















text \<open>
  Claim C8 against the code. \<^verbatim>\<open>new Recorder()\<close>, where \<^verbatim>\<open>init\<close> stores its first
  parameter in \<^verbatim>\<open>seen\<close>: the constructor resolves its own \<^verbatim>\<open>properties\<close> to \<^verbatim>\<open>{}\<close>, but
  \<^verbatim>\<open>init\<close> is applied to \<^verbatim>\<open>arguments\<close>, which is empty, so \<^verbatim>\<open>init\<close> receives
  \<^verbatim>\<open>undefined\<close>. With an explicit \<^verbatim>\<open>new Recorder(undefined)\<close> the same code does hand
  the resolved empty mapping to \<^verbatim>\<open>init\<close>.
\<close>

theorem init_without_arguments:
  "\<not> isl (construct test_code Recorder clock [])
   \<and> props (projr (construct test_code Recorder clock [])) ''seen'' = Some VUndefined
   \<and> \<not> isl (construct test_code Recorder clock [VUndefined])
   \<and> props (projr (construct test_code Recorder clock [VUndefined])) ''seen''
       = Some (VObj 1000 [])"
  by code_simp

section \<open>Derivation\<close>






















end
